theory Spec2Isabelle
  imports Main "HOL-Library.Sublist"
begin

section \<open>Python values the wrapper works with\<close>

text \<open>
  The model follows \<^verbatim>\<open>scripts/trainctl_wrapper.py\<close>. A Python \<^verbatim>\<open>str\<close> is a
  \<open>string\<close>; a \<open>char\<close> stands for the code point of the same number (0 to 255).
  Python's unbounded \<^verbatim>\<open>int\<close> is \<open>int\<close>.
\<close>

definition newline :: char where
  "newline = CHR 0x0A"

definition isspace :: "char \<Rightarrow> bool" where
  \<comment> \<open>\<^verbatim>\<open>str.isspace\<close> on one character: TAB, LF, VT, FF, CR, the separators
      0x1C to 0x1F, the space, NEL (0x85) and the no-break space (0xA0).\<close>
  "isspace c =
     (let n = (of_char c :: nat)
      in (9 \<le> n \<and> n \<le> 13) \<or> (28 \<le> n \<and> n \<le> 32) \<or> n = 133 \<or> n = 160)"

definition strip :: "string \<Rightarrow> string" where
  \<comment> \<open>\<^verbatim>\<open>str.strip()\<close> with no argument: whitespace is removed at both ends.\<close>
  "strip s = rev (dropWhile isspace (rev (dropWhile isspace s)))"

fun join :: "string \<Rightarrow> string list \<Rightarrow> string" where
  \<comment> \<open>\<^verbatim>\<open>sep.join(xs)\<close>\<close>
  "join sep [] = []"
| "join sep [x] = x"
| "join sep (x # y # ys) = x @ sep @ join sep (y # ys)"

definition digits :: string where
  "digits = ''0123456789''"

definition digit_char :: "nat \<Rightarrow> char" where
  "digit_char d = digits ! d"

function str_nat :: "nat \<Rightarrow> string" where
  "str_nat n = (if n < 10 then [digit_char n] else str_nat (n div 10) @ [digit_char (n mod 10)])"
  by pat_completeness auto
termination
  by (relation "measure (\<lambda>n. n)") auto

declare str_nat.simps [simp del]

definition str_int :: "int \<Rightarrow> string" where
  \<comment> \<open>\<^verbatim>\<open>str(i)\<close> for an \<^verbatim>\<open>int\<close>: decimal digits, with a minus sign below zero.\<close>
  "str_int i = (if i < 0 then CHR ''-'' # str_nat (nat (- i)) else str_nat (nat i))"

text \<open>
  A Python \<^verbatim>\<open>float\<close> is an IEEE double: a signed finite number
  (sign, mantissa, exponent), an infinity or a NaN. The wrapper only tests it for truth
  (\<^verbatim>\<open>if spot_max_price:\<close>, true unless the number is plus or minus zero) and renders
  it with \<^verbatim>\<open>str\<close>. The rendering is the interpreter's; the builders take it as the
  parameter \<open>float_str\<close>.
\<close>

datatype pyfloat = FNum bool nat int | FInf bool | FNaN

fun float_bool :: "pyfloat \<Rightarrow> bool" where
  "float_bool (FNum sign mantissa exponent) = (mantissa \<noteq> 0)"
| "float_bool (FInf sign) = True"
| "float_bool FNaN = True"

text \<open>
  An optional argument is an \<open>option\<close>. A test \<^verbatim>\<open>if x:\<close> on it is false for
  \<^verbatim>\<open>None\<close> and otherwise the value's own truth: a string or a list is true unless
  empty, an \<^verbatim>\<open>int\<close> unless zero, a \<^verbatim>\<open>float\<close> by \<open>float_bool\<close>.
\<close>

section \<open>The facade: class Trainctl\<close>

record trainctl =
  binary :: string
  output_format :: string

text \<open>
  What the constructor reads from its surroundings: \<^verbatim>\<open>shutil.which\<close>,
  \<^verbatim>\<open>Path.exists\<close>, and the two build paths
  \<^verbatim>\<open>str(Path(__file__).parent.parent / "target" / "release" / "trainctl")\<close> and
  the same with \<^verbatim>\<open>"debug"\<close>.
\<close>

record filesystem =
  which :: "string \<Rightarrow> string option"
  path_exists :: "string \<Rightarrow> bool"
  release_bin :: string
  debug_bin :: string

definition Trainctl_init :: "filesystem \<Rightarrow> string option \<Rightarrow> string \<Rightarrow> trainctl" where
  "Trainctl_init fs binary_arg output_format_arg =
     \<lparr> binary =
         (case binary_arg of
            None \<Rightarrow>
              if (case which fs ''trainctl'' of Some w \<Rightarrow> w \<noteq> [] | None \<Rightarrow> False)
              then ''trainctl''
              else if path_exists fs (release_bin fs) then release_bin fs
              else if path_exists fs (debug_bin fs) then debug_bin fs
              else ''trainctl''
          | Some b \<Rightarrow> b),
       output_format = output_format_arg \<rparr>"

subsection \<open>Running the child process\<close>

text \<open>
  The operating system is a function from the command line to what happens to the child:
  the executable is not found, or the child runs and exits with a code, its standard
  output and its standard error (both captured as text).
  \<^verbatim>\<open>subprocess.run(cmd, capture_output=True, text=True, check=check)\<close> raises
  \<^verbatim>\<open>FileNotFoundError\<close> in the first case; in the second it raises
  \<^verbatim>\<open>CalledProcessError\<close> when \<^verbatim>\<open>check\<close> is set and the code is not zero, and
  returns a \<^verbatim>\<open>CompletedProcess\<close> otherwise. Other failures of the interpreter or
  the system (a permission error, output that is not text) are not modelled.
\<close>

datatype proc_outcome = NotFound | Exited int string string

datatype run_result =
    FileNotFoundError
  | CalledProcessError int string string
  | CompletedProcess int string string

definition subprocess_run ::
  "(string list \<Rightarrow> proc_outcome) \<Rightarrow> string list \<Rightarrow> bool \<Rightarrow> run_result" where
  "subprocess_run spawn cmd check =
     (case spawn cmd of
        NotFound \<Rightarrow> FileNotFoundError
      | Exited returncode out err \<Rightarrow>
          if check \<and> returncode \<noteq> 0 then CalledProcessError returncode out err
          else CompletedProcess returncode out err)"

text \<open>
  The decoder \<^verbatim>\<open>json.loads\<close> is the parameter \<open>json_loads\<close>. On a text it
  returns a value, or raises \<^verbatim>\<open>json.JSONDecodeError\<close> on a text that is not a JSON
  document, or raises another exception: \<^verbatim>\<open>RecursionError\<close> on brackets nested
  deeper than the interpreter's recursion limit, plain \<^verbatim>\<open>ValueError\<close> on an integer
  literal longer than the interpreter's digit limit.
\<close>

datatype loads_exception = RecursionError | ValueError

datatype 'j loads_result = Decoded 'j | JSONDecodeError | Raises loads_exception

text \<open>
  The value \<^verbatim>\<open>_run\<close> returns: a dictionary the wrapper builds itself (keys in
  insertion order), or whatever \<^verbatim>\<open>json.loads\<close> returned. What it raises:
  \<^verbatim>\<open>TrainctlError\<close> with a message, or an exception of the decoder that no
  handler of \<^verbatim>\<open>_run\<close> catches (the inner one catches
  \<^verbatim>\<open>json.JSONDecodeError\<close> only, the outer ones \<^verbatim>\<open>FileNotFoundError\<close> and
  \<^verbatim>\<open>subprocess.CalledProcessError\<close>).
\<close>

datatype pyval = PyStr string | PyInt int

datatype 'j result = Dict "(string \<times> pyval) list" | Loaded 'j

datatype exn = TrainctlError string | Uncaught loads_exception

definition command_line :: "trainctl \<Rightarrow> string list \<Rightarrow> string list" where
  "command_line self args =
     (binary self # args) @
     (if output_format self = ''json'' then [''--output'', ''json''] else [])"

definition run ::
  "(string \<Rightarrow> 'j loads_result) \<Rightarrow> (string list \<Rightarrow> proc_outcome) \<Rightarrow> trainctl \<Rightarrow>
   string list \<Rightarrow> bool \<Rightarrow> exn + 'j result" where
  "run json_loads spawn self args check =
     (let cmd = command_line self args in
      case subprocess_run spawn cmd check of
        CompletedProcess returncode stdout stderr \<Rightarrow>
          if returncode \<noteq> 0 then
            (if check then
               Inl (TrainctlError
                 (''trainctl failed: '' @ stderr @ [newline] @
                  ''Command: '' @ join '' '' cmd))
             else Inr (Dict [(''error'', PyStr stderr), (''exit_code'', PyInt returncode)]))
          else if strip stdout = [] then Inr (Dict [])
          else if output_format self = ''json'' then
            (case json_loads stdout of
               Decoded v \<Rightarrow> Inr (Loaded v)
             | JSONDecodeError \<Rightarrow> Inr (Dict [(''output'', PyStr stdout)])
             | Raises e \<Rightarrow> Inl (Uncaught e))
          else Inr (Dict [(''output'', PyStr stdout)])
      | FileNotFoundError \<Rightarrow>
          Inl (TrainctlError
            (''trainctl binary not found: '' @ binary self @ [newline] @
             ''Install with: cargo install --path .''))
      | CalledProcessError returncode out err \<Rightarrow>
          Inl (TrainctlError
            (''trainctl command failed: '' @ err @ [newline] @
             ''Command: '' @ join '' '' cmd)))"

definition version ::
  "(string \<Rightarrow> 'j loads_result) \<Rightarrow> (string list \<Rightarrow> proc_outcome) \<Rightarrow> trainctl \<Rightarrow>
   exn + 'j result" where
  "version json_loads spawn self = run json_loads spawn self [''--version''] False"

section \<open>Command builders\<close>

text \<open>
  Each method builds its argument list and hands it to \<^verbatim>\<open>_run\<close> with the default
  \<^verbatim>\<open>check=True\<close>. The list is the function \<open>..._args\<close>; the method is the
  function of the same name as in the source.
\<close>

subsection \<open>class AWSCommands\<close>

definition create_instance_args ::
  "(pyfloat \<Rightarrow> string) \<Rightarrow> string \<Rightarrow> bool \<Rightarrow> pyfloat option \<Rightarrow> string option \<Rightarrow>
   string option \<Rightarrow> string list" where
  "create_instance_args float_str instance_type spot spot_max_price ami_id project_name =
     [''aws'', ''create'', ''--instance-type'', instance_type]
     @ (if spot then [''--spot''] else [])
     @ (case spot_max_price of
          Some p \<Rightarrow> if float_bool p then [''--spot-max-price'', float_str p] else []
        | None \<Rightarrow> [])
     @ (case ami_id of
          Some a \<Rightarrow> if a \<noteq> [] then [''--ami-id'', a] else []
        | None \<Rightarrow> [])
     @ (case project_name of
          Some n \<Rightarrow> if n \<noteq> [] then [''--project-name'', n] else []
        | None \<Rightarrow> [])"

definition train_args ::
  "string \<Rightarrow> string \<Rightarrow> string option \<Rightarrow> bool \<Rightarrow> string option \<Rightarrow> string list option \<Rightarrow>
   string list" where
  "train_args instance_id script data_s3 sync_code project_name args =
     [''aws'', ''train'', instance_id, script]
     @ (case data_s3 of
          Some d \<Rightarrow> if d \<noteq> [] then [''--data-s3'', d] else []
        | None \<Rightarrow> [])
     @ (if sync_code then [''--sync-code''] else [])
     @ (case project_name of
          Some n \<Rightarrow> if n \<noteq> [] then [''--project-name'', n] else []
        | None \<Rightarrow> [])
     @ (case args of
          Some xs \<Rightarrow> if xs \<noteq> [] then [''--''] @ xs else []
        | None \<Rightarrow> [])"

definition stop_args :: "string \<Rightarrow> bool \<Rightarrow> string list" where
  "stop_args instance_id force =
     [''aws'', ''stop'', instance_id] @ (if force then [''--force''] else [])"

definition terminate_args :: "string \<Rightarrow> bool \<Rightarrow> string list" where
  "terminate_args instance_id force =
     [''aws'', ''terminate'', instance_id] @ (if force then [''--force''] else [])"

definition monitor_args :: "string \<Rightarrow> bool \<Rightarrow> string list" where
  "monitor_args instance_id follow =
     [''aws'', ''monitor'', instance_id] @ (if follow then [''--follow''] else [])"

definition processes_args :: "string \<Rightarrow> bool \<Rightarrow> string list" where
  "processes_args instance_id watch =
     [''aws'', ''processes'', instance_id] @ (if watch then [''--watch''] else [])"

subsection \<open>class ResourceCommands\<close>

definition resources_list_args :: "string option \<Rightarrow> bool \<Rightarrow> int option \<Rightarrow> string list" where
  "resources_list_args platform detailed limit =
     [''resources'', ''list'']
     @ (case platform of
          Some p \<Rightarrow> if p \<noteq> [] then [''--platform'', p] else []
        | None \<Rightarrow> [])
     @ (if detailed then [''--detailed''] else [])
     @ (case limit of
          Some l \<Rightarrow> if l \<noteq> 0 then [''--limit'', str_int l] else []
        | None \<Rightarrow> [])"

definition stop_all_args :: "bool \<Rightarrow> string list" where
  "stop_all_args force =
     [''resources'', ''stop-all''] @ (if force then [''--force''] else [])"

subsection \<open>class CheckpointCommands\<close>

definition checkpoint_list_args :: "string \<Rightarrow> string list" where
  "checkpoint_list_args directory = [''checkpoint'', ''list'', directory]"

definition info_args :: "string \<Rightarrow> string list" where
  "info_args path = [''checkpoint'', ''info'', path]"

subsection \<open>The methods\<close>

type_synonym 'j invoker = "trainctl \<Rightarrow> string list \<Rightarrow> bool \<Rightarrow> exn + 'j result"

text \<open>
  Below, \<open>invoke\<close> is \<open>run json_loads spawn\<close>: the bound method
  \<^verbatim>\<open>self.trainctl._run\<close> in its surroundings.
\<close>

definition create_instance ::
  "'j invoker \<Rightarrow> trainctl \<Rightarrow> (pyfloat \<Rightarrow> string) \<Rightarrow> string \<Rightarrow> bool \<Rightarrow> pyfloat option \<Rightarrow>
   string option \<Rightarrow> string option \<Rightarrow> exn + 'j result" where
  "create_instance invoke self float_str instance_type spot spot_max_price ami_id project_name =
     invoke self
       (create_instance_args float_str instance_type spot spot_max_price ami_id project_name)
       True"

definition train ::
  "'j invoker \<Rightarrow> trainctl \<Rightarrow> string \<Rightarrow> string \<Rightarrow> string option \<Rightarrow> bool \<Rightarrow> string option \<Rightarrow>
   string list option \<Rightarrow> exn + 'j result" where
  "train invoke self instance_id script data_s3 sync_code project_name args =
     invoke self (train_args instance_id script data_s3 sync_code project_name args) True"

definition stop :: "'j invoker \<Rightarrow> trainctl \<Rightarrow> string \<Rightarrow> bool \<Rightarrow> exn + 'j result" where
  "stop invoke self instance_id force = invoke self (stop_args instance_id force) True"

definition terminate :: "'j invoker \<Rightarrow> trainctl \<Rightarrow> string \<Rightarrow> bool \<Rightarrow> exn + 'j result" where
  "terminate invoke self instance_id force =
     invoke self (terminate_args instance_id force) True"

definition monitor :: "'j invoker \<Rightarrow> trainctl \<Rightarrow> string \<Rightarrow> bool \<Rightarrow> exn + 'j result" where
  "monitor invoke self instance_id follow = invoke self (monitor_args instance_id follow) True"

definition processes :: "'j invoker \<Rightarrow> trainctl \<Rightarrow> string \<Rightarrow> bool \<Rightarrow> exn + 'j result" where
  "processes invoke self instance_id watch =
     invoke self (processes_args instance_id watch) True"

definition resources_list ::
  "'j invoker \<Rightarrow> trainctl \<Rightarrow> string option \<Rightarrow> bool \<Rightarrow> int option \<Rightarrow> exn + 'j result" where
  "resources_list invoke self platform detailed limit =
     invoke self (resources_list_args platform detailed limit) True"

definition summary :: "'j invoker \<Rightarrow> trainctl \<Rightarrow> exn + 'j result" where
  "summary invoke self = invoke self [''resources'', ''summary''] True"

definition stop_all :: "'j invoker \<Rightarrow> trainctl \<Rightarrow> bool \<Rightarrow> exn + 'j result" where
  "stop_all invoke self force = invoke self (stop_all_args force) True"

definition checkpoint_list :: "'j invoker \<Rightarrow> trainctl \<Rightarrow> string \<Rightarrow> exn + 'j result" where
  "checkpoint_list invoke self directory = invoke self (checkpoint_list_args directory) True"

definition info :: "'j invoker \<Rightarrow> trainctl \<Rightarrow> string \<Rightarrow> exn + 'j result" where
  "info invoke self path = invoke self (info_args path) True"

section \<open>Stand-ins for the surroundings, for the examples\<close>

text \<open>
  A child that prints a fixed text and exits with code 0 whatever its arguments, a child
  that fails with a fixed code and error text, a system on which no executable is found,
  a system that answers one command line only and finds no executable for any other,
  a decoder that rejects every document with \<^verbatim>\<open>JSONDecodeError\<close> and one that
  accepts every document (and returns it as it is).
\<close>

definition child_prints :: "string \<Rightarrow> string list \<Rightarrow> proc_outcome" where
  "child_prints out cmd = Exited 0 out []"

definition child_fails :: "int \<Rightarrow> string \<Rightarrow> string list \<Rightarrow> proc_outcome" where
  "child_fails code err cmd = Exited code [] err"

definition no_executable :: "string list \<Rightarrow> proc_outcome" where
  "no_executable cmd = NotFound"

definition only_command :: "string list \<Rightarrow> proc_outcome \<Rightarrow> string list \<Rightarrow> proc_outcome" where
  "only_command expected outcome cmd = (if cmd = expected then outcome else NotFound)"

definition rejects_all :: "string \<Rightarrow> unit loads_result" where
  "rejects_all doc = JSONDecodeError"

definition accepts_all :: "string \<Rightarrow> string loads_result" where
  "accepts_all doc = Decoded doc"

section \<open>Facts about the string functions\<close>

lemma strip_Nil_iff: "strip s = [] \<longleftrightarrow> list_all isspace s"
proof
  assume "strip s = []"
  then have "dropWhile isspace (rev (dropWhile isspace s)) = []"
    by (simp add: strip_def)
  then have all: "\<forall>c \<in> set (dropWhile isspace s). isspace c"
    by simp
  have "dropWhile isspace s = []"
  proof (cases "dropWhile isspace s")
    case Nil
    then show ?thesis .
  next
    case (Cons c cs)
    then have "\<not> isspace c"
      by (metis hd_dropWhile list.sel(1) list.distinct(1))
    moreover have "isspace c"
      using all Cons by simp
    ultimately show ?thesis by simp
  qed
  then show "list_all isspace s"
    by (simp add: list_all_iff)
next
  assume "list_all isspace s"
  then show "strip s = []"
    by (auto simp: strip_def list_all_iff dest: set_dropWhileD)
qed

lemma digit_char_in: "d < 10 \<Longrightarrow> digit_char d \<in> set digits"
  unfolding digit_char_def by (rule nth_mem) (simp add: digits_def)

lemma str_nat_digits: "set (str_nat n) \<subseteq> set digits"
proof (induction n rule: str_nat.induct)
  case (1 n)
  show ?case
  proof (cases "n < 10")
    case True
    then show ?thesis
      using digit_char_in [of n] by (subst str_nat.simps) simp
  next
    case False
    have "n mod 10 < 10" by simp
    then have "digit_char (n mod 10) \<in> set digits"
      by (rule digit_char_in)
    with False 1 show ?thesis
      by (subst str_nat.simps) simp
  qed
qed

lemma str_int_chars: "set (str_int i) \<subseteq> insert CHR ''-'' (set digits)"
proof (cases "i < 0")
  case True
  then show ?thesis
    using str_nat_digits [of "nat (- i)"] by (auto simp: str_int_def)
next
  case False
  then show ?thesis
    using str_nat_digits [of "nat i"] by (auto simp: str_int_def)
qed

lemma str_int_neq:
  assumes "c \<in> set f" and "c \<noteq> CHR ''-''" and "c \<notin> set digits"
  shows "str_int i \<noteq> f"
proof
  assume "str_int i = f"
  then have "c \<in> set (str_int i)" using assms(1) by simp
  then have "c \<in> insert CHR ''-'' (set digits)" using str_int_chars by blast
  then show False using assms(2,3) by simp
qed

lemma str_int_not_flags:
  "str_int i \<noteq> ''--platform''" "str_int i \<noteq> ''--detailed''" "str_int i \<noteq> ''--limit''"
  by (rule str_int_neq [where c = "CHR ''t''"]; simp add: digits_def)+

lemma sublist_inner: "sublist x (a @ x @ b)"
  by (rule sublist_appendI)

lemma sublist_last: "sublist x (a @ b @ c @ d @ x)"
proof -
  have "a @ b @ c @ d @ x = (a @ b @ c @ d) @ x @ []" by simp
  then show ?thesis by (metis sublist_appendI)
qed

section \<open>The invoker and the response decoder\<close>

text \<open>What \<open>run\<close> does once the child has exited with code 0.\<close>

lemma run_completed:
  assumes "spawn (command_line self args) = Exited 0 out err"
  shows "run json_loads spawn self args check =
     (if strip out = [] then Inr (Dict [])
      else if output_format self = ''json'' then
        (case json_loads out of
           Decoded v \<Rightarrow> Inr (Loaded v)
         | JSONDecodeError \<Rightarrow> Inr (Dict [(''output'', PyStr out)])
         | Raises e \<Rightarrow> Inl (Uncaught e))
      else Inr (Dict [(''output'', PyStr out)]))"
  using assms by (simp add: run_def subprocess_run_def Let_def)

text \<open>
  Claim C1, as amended. With the \<^verbatim>\<open>json\<close> format, exit code 0 and a standard output
  that is not empty or whitespace-only and on which the decoder raises
  \<^verbatim>\<open>json.JSONDecodeError\<close>, \<^verbatim>\<open>_run\<close> raises nothing and returns the one-field
  dictionary \<^verbatim>\<open>{"output": stdout}\<close>, for either value of \<^verbatim>\<open>check\<close>.
\<close>

theorem run_json_fallback:
  assumes "output_format self = ''json''"
    and "spawn (command_line self args) = Exited 0 out err"
    and "\<not> list_all isspace out"
    and "json_loads out = JSONDecodeError"
  shows "run json_loads spawn self args check = Inr (Dict [(''output'', PyStr out)])"
  using assms by (simp add: run_completed strip_Nil_iff)

text \<open>
  The instance of C1 the specification names: a child printing \<^verbatim>\<open>hello\<close>, which
  the decoder rejects, gives \<^verbatim>\<open>{"output": "hello"}\<close>.
\<close>

theorem run_json_fallback_witness:
  "output_format \<lparr>binary = ''trainctl'', output_format = ''json''\<rparr> = ''json''
   \<and> child_prints ''hello''
        (command_line \<lparr>binary = ''trainctl'', output_format = ''json''\<rparr> [''--version''])
       = Exited 0 ''hello'' []
   \<and> \<not> list_all isspace ''hello''
   \<and> rejects_all ''hello'' = JSONDecodeError
   \<and> run rejects_all (child_prints ''hello'')
        \<lparr>binary = ''trainctl'', output_format = ''json''\<rparr> [''--version''] True
       = Inr (Dict [(''output'', PyStr ''hello'')])"
  using run_json_fallback [of "\<lparr>binary = ''trainctl'', output_format = ''json''\<rparr>"
      "child_prints ''hello''" "[''--version'']" "''hello''" "[]" rejects_all True]
  by (simp add: child_prints_def rejects_all_def isspace_def)

text \<open>
  An exception of the decoder other than \<^verbatim>\<open>json.JSONDecodeError\<close> is caught
  nowhere in \<^verbatim>\<open>_run\<close> and leaves it as it is.
\<close>

lemma run_decoder_raises:
  assumes "output_format self = ''json''"
    and "spawn (command_line self args) = Exited 0 out err"
    and "\<not> list_all isspace out"
    and "json_loads out = Raises e"
  shows "run json_loads spawn self args check = Inl (Uncaught e)"
  using assms by (simp add: run_completed strip_Nil_iff)

text \<open>
  Claim C1 as first stated asks only for a non-empty standard output. A single space is
  non-empty and is not a JSON document, yet the test on \<^verbatim>\<open>stdout.strip()\<close> comes
  first and the result is the empty dictionary, not \<^verbatim>\<open>{"output": " "}\<close>.
\<close>

theorem run_json_whitespace_counterexample:
  "'' '' \<noteq> []
   \<and> rejects_all '' '' = JSONDecodeError
   \<and> run rejects_all (child_prints '' '')
        \<lparr>binary = ''trainctl'', output_format = ''json''\<rparr> [''--version''] True
       = Inr (Dict [])
   \<and> run rejects_all (child_prints '' '')
        \<lparr>binary = ''trainctl'', output_format = ''json''\<rparr> [''--version''] True
       \<noteq> Inr (Dict [(''output'', PyStr '' '')])"
  by (simp add: run_def subprocess_run_def command_line_def child_prints_def rejects_all_def
      strip_def isspace_def)

text \<open>
  Claim C2. With \<^verbatim>\<open>check=True\<close> and a child that exits with a code other than 0,
  \<^verbatim>\<open>_run\<close> raises \<^verbatim>\<open>TrainctlError\<close>; its message contains the captured
  standard error and the command line, that is the list handed to
  \<^verbatim>\<open>subprocess.run\<close> joined by single spaces.
\<close>

theorem run_check_nonzero_raises:
  assumes "spawn (command_line self args) = Exited returncode out err"
    and "returncode \<noteq> 0"
  shows "run json_loads spawn self args True =
           Inl (TrainctlError
             (''trainctl command failed: '' @ err @ [newline] @
              ''Command: '' @ join '' '' (command_line self args)))
         \<and> sublist err
             (''trainctl command failed: '' @ err @ [newline] @
              ''Command: '' @ join '' '' (command_line self args))
         \<and> sublist (join '' '' (command_line self args))
             (''trainctl command failed: '' @ err @ [newline] @
              ''Command: '' @ join '' '' (command_line self args))"
proof (intro conjI)
  show "run json_loads spawn self args True =
           Inl (TrainctlError
             (''trainctl command failed: '' @ err @ [newline] @
              ''Command: '' @ join '' '' (command_line self args)))"
    using assms by (simp add: run_def subprocess_run_def Let_def)
  show "sublist err
             (''trainctl command failed: '' @ err @ [newline] @
              ''Command: '' @ join '' '' (command_line self args))"
    by (rule sublist_inner)
  show "sublist (join '' '' (command_line self args))
             (''trainctl command failed: '' @ err @ [newline] @
              ''Command: '' @ join '' '' (command_line self args))"
    by (rule sublist_last)
qed

text \<open>
  The scenario of C2: exit code 1 with the error text \<^verbatim>\<open>quota exceeded\<close>.
\<close>

theorem run_check_nonzero_raises_witness:
  "child_fails 1 ''quota exceeded''
     (command_line \<lparr>binary = ''trainctl'', output_format = ''json''\<rparr> [''resources'', ''list''])
     = Exited 1 [] ''quota exceeded''
   \<and> (1::int) \<noteq> 0
   \<and> run rejects_all (child_fails 1 ''quota exceeded'')
        \<lparr>binary = ''trainctl'', output_format = ''json''\<rparr> [''resources'', ''list''] True
       = Inl (TrainctlError
           (''trainctl command failed: quota exceeded'' @ [newline] @
            ''Command: trainctl resources list --output json''))
   \<and> sublist ''quota exceeded''
        (''trainctl command failed: quota exceeded'' @ [newline] @
         ''Command: trainctl resources list --output json'')
   \<and> sublist ''trainctl resources list --output json''
        (''trainctl command failed: quota exceeded'' @ [newline] @
         ''Command: trainctl resources list --output json'')"
  using run_check_nonzero_raises [of "child_fails 1 ''quota exceeded''"
      "\<lparr>binary = ''trainctl'', output_format = ''json''\<rparr>" "[''resources'', ''list'']"
      1 "[]" "''quota exceeded''" rejects_all]
  by (simp add: child_fails_def command_line_def)

text \<open>
  Claim C3. With \<^verbatim>\<open>check=False\<close> and a child that exits with a code other than 0,
  \<^verbatim>\<open>_run\<close> raises nothing and returns
  \<^verbatim>\<open>{"error": stderr, "exit_code": returncode}\<close>.
\<close>

theorem run_nocheck_nonzero_returns:
  assumes "spawn (command_line self args) = Exited returncode out err"
    and "returncode \<noteq> 0"
  shows "run json_loads spawn self args False =
           Inr (Dict [(''error'', PyStr err), (''exit_code'', PyInt returncode)])"
  using assms by (simp add: run_def subprocess_run_def Let_def)

text \<open>An instance of C3: exit code 2, for a facade in the \<^verbatim>\<open>json\<close> format.\<close>

theorem run_nocheck_nonzero_returns_witness:
  "child_fails 2 ''no such instance''
     (command_line \<lparr>binary = ''trainctl'', output_format = ''json''\<rparr> [''aws'', ''stop'', ''i-1''])
     = Exited 2 [] ''no such instance''
   \<and> (2::int) \<noteq> 0
   \<and> run rejects_all (child_fails 2 ''no such instance'')
        \<lparr>binary = ''trainctl'', output_format = ''json''\<rparr> [''aws'', ''stop'', ''i-1''] False
       = Inr (Dict [(''error'', PyStr ''no such instance''), (''exit_code'', PyInt 2)])"
  using run_nocheck_nonzero_returns [of "child_fails 2 ''no such instance''"
      "\<lparr>binary = ''trainctl'', output_format = ''json''\<rparr>" "[''aws'', ''stop'', ''i-1'']"
      2 "[]" "''no such instance''" rejects_all]
  by (simp add: child_fails_def)

text \<open>
  Claim C4. When the child exits with code 0 and its standard output is empty or consists
  of whitespace only, \<^verbatim>\<open>_run\<close> returns the empty dictionary, whatever the output
  format and the value of \<^verbatim>\<open>check\<close>.
\<close>

theorem run_blank_stdout_empty:
  assumes "spawn (command_line self args) = Exited 0 out err"
    and "list_all isspace out"
  shows "run json_loads spawn self args check = Inr (Dict [])"
  using assms by (simp add: run_completed strip_Nil_iff)

text \<open>
  Instances of C4: a space and a line feed in the \<^verbatim>\<open>json\<close> format, no output at
  all in the \<^verbatim>\<open>text\<close> format.
\<close>

theorem run_blank_stdout_empty_witness:
  "child_prints [CHR '' '', newline]
     (command_line \<lparr>binary = ''trainctl'', output_format = ''json''\<rparr> [''resources'', ''summary''])
     = Exited 0 [CHR '' '', newline] []
   \<and> list_all isspace [CHR '' '', newline]
   \<and> run rejects_all (child_prints [CHR '' '', newline])
        \<lparr>binary = ''trainctl'', output_format = ''json''\<rparr> [''resources'', ''summary''] True
       = Inr (Dict [])
   \<and> child_prints []
     (command_line \<lparr>binary = ''trainctl'', output_format = ''text''\<rparr> [''resources'', ''summary''])
     = Exited 0 [] []
   \<and> list_all isspace []
   \<and> run rejects_all (child_prints [])
        \<lparr>binary = ''trainctl'', output_format = ''text''\<rparr> [''resources'', ''summary''] False
       = Inr (Dict [])"
  using
    run_blank_stdout_empty [of "child_prints [CHR '' '', newline]"
      "\<lparr>binary = ''trainctl'', output_format = ''json''\<rparr>" "[''resources'', ''summary'']"
      "[CHR '' '', newline]" "[]" rejects_all True]
    run_blank_stdout_empty [of "child_prints []"
      "\<lparr>binary = ''trainctl'', output_format = ''text''\<rparr>" "[''resources'', ''summary'']"
      "[]" "[]" rejects_all False]
  by (simp add: child_prints_def isspace_def newline_def)

text \<open>
  Claim C9, as amended. Any output format other than exactly \<^verbatim>\<open>json\<close> is the raw
  text format: the command is the executable followed by the arguments, with no
  \<^verbatim>\<open>--output json\<close> pair appended; and when the child exits with code 0 and a
  standard output that is not empty or whitespace-only, the result is
  \<^verbatim>\<open>{"output": stdout}\<close> whatever the decoder would say of the text.
\<close>

theorem run_text_format:
  assumes "output_format self \<noteq> ''json''"
  shows "command_line self args = binary self # args
         \<and> (spawn (binary self # args) = Exited 0 out err \<and> \<not> list_all isspace out \<longrightarrow>
              run json_loads spawn self args check = Inr (Dict [(''output'', PyStr out)]))"
proof (intro conjI impI)
  show cmd: "command_line self args = binary self # args"
    using assms by (simp add: command_line_def)
  assume "spawn (binary self # args) = Exited 0 out err \<and> \<not> list_all isspace out"
  then show "run json_loads spawn self args check = Inr (Dict [(''output'', PyStr out)])"
    using assms cmd by (simp add: run_completed strip_Nil_iff)
qed

text \<open>
  An instance of C9: in the \<^verbatim>\<open>text\<close> format a child printing \<^verbatim>\<open>[1, 2]\<close>
  gives \<^verbatim>\<open>{"output": "[1, 2]"}\<close>, even with a decoder that accepts every document.
\<close>

theorem run_text_format_witness:
  "output_format \<lparr>binary = ''trainctl'', output_format = ''text''\<rparr> \<noteq> ''json''
   \<and> command_line \<lparr>binary = ''trainctl'', output_format = ''text''\<rparr> [''aws'', ''stop'', ''i-1'']
       = [''trainctl'', ''aws'', ''stop'', ''i-1'']
   \<and> child_prints ''[1, 2]'' [''trainctl'', ''aws'', ''stop'', ''i-1'']
       = Exited 0 ''[1, 2]'' []
   \<and> \<not> list_all isspace ''[1, 2]''
   \<and> run accepts_all (child_prints ''[1, 2]'')
        \<lparr>binary = ''trainctl'', output_format = ''text''\<rparr> [''aws'', ''stop'', ''i-1''] True
       = Inr (Dict [(''output'', PyStr ''[1, 2]'')])"
  using run_text_format [of "\<lparr>binary = ''trainctl'', output_format = ''text''\<rparr>"
      "[''aws'', ''stop'', ''i-1'']" "child_prints ''[1, 2]''" "''[1, 2]''" "[]"
      accepts_all True]
  by (simp add: child_prints_def isspace_def)

text \<open>
  Claim C9 as first stated asks only for a non-empty standard output. A single line feed
  is non-empty, yet in the \<^verbatim>\<open>text\<close> format the result is the empty dictionary,
  not \<^verbatim>\<open>{"output": "\n"}\<close>.
\<close>

theorem run_text_newline_counterexample:
  "output_format \<lparr>binary = ''trainctl'', output_format = ''text''\<rparr> \<noteq> ''json''
   \<and> [newline] \<noteq> []
   \<and> run rejects_all (child_prints [newline])
        \<lparr>binary = ''trainctl'', output_format = ''text''\<rparr> [''aws'', ''stop'', ''i-1''] True
       = Inr (Dict [])
   \<and> run rejects_all (child_prints [newline])
        \<lparr>binary = ''trainctl'', output_format = ''text''\<rparr> [''aws'', ''stop'', ''i-1''] True
       \<noteq> Inr (Dict [(''output'', PyStr [newline])])"
  by (simp add: run_def subprocess_run_def command_line_def child_prints_def
      strip_def isspace_def newline_def)

text \<open>
  Claim C10. \<^verbatim>\<open>check=False\<close> does not silence a missing executable: when the
  executable is not found, \<^verbatim>\<open>_run\<close> with \<^verbatim>\<open>check=False\<close>, and so
  \<^verbatim>\<open>version()\<close>, raises \<^verbatim>\<open>TrainctlError\<close>; the message contains the path
  that was tried and the hint \<^verbatim>\<open>Install with: cargo install --path .\<close>
\<close>

theorem run_not_found_raises:
  "(spawn (command_line self args) = NotFound \<longrightarrow>
      run json_loads spawn self args False =
        Inl (TrainctlError
          (''trainctl binary not found: '' @ binary self @ [newline] @
           ''Install with: cargo install --path .'')))
   \<and> (spawn (command_line self [''--version'']) = NotFound \<longrightarrow>
      version json_loads spawn self =
        Inl (TrainctlError
          (''trainctl binary not found: '' @ binary self @ [newline] @
           ''Install with: cargo install --path .'')))
   \<and> sublist (binary self)
        (''trainctl binary not found: '' @ binary self @ [newline] @
         ''Install with: cargo install --path .'')
   \<and> sublist ''Install with: cargo install --path .''
        (''trainctl binary not found: '' @ binary self @ [newline] @
         ''Install with: cargo install --path .'')"
proof (intro conjI impI)
  show "run json_loads spawn self args False =
        Inl (TrainctlError
          (''trainctl binary not found: '' @ binary self @ [newline] @
           ''Install with: cargo install --path .''))"
    if "spawn (command_line self args) = NotFound"
    using that by (simp add: run_def subprocess_run_def Let_def)
  show "version json_loads spawn self =
        Inl (TrainctlError
          (''trainctl binary not found: '' @ binary self @ [newline] @
           ''Install with: cargo install --path .''))"
    if "spawn (command_line self [''--version'']) = NotFound"
    using that by (simp add: version_def run_def subprocess_run_def Let_def)
  show "sublist (binary self)
        (''trainctl binary not found: '' @ binary self @ [newline] @
         ''Install with: cargo install --path .'')"
    by (rule sublist_inner)
  have "sublist ''Install with: cargo install --path .''
        (''trainctl binary not found: '' @ binary self @ [newline] @ [] @
         ''Install with: cargo install --path .'')"
    by (rule sublist_last)
  then show "sublist ''Install with: cargo install --path .''
        (''trainctl binary not found: '' @ binary self @ [newline] @
         ''Install with: cargo install --path .'')"
    by simp
qed

text \<open>An instance of C10: the executable \<^verbatim>\<open>/opt/missing/trainctl\<close> is not there.\<close>

theorem run_not_found_raises_witness:
  "no_executable
     (command_line \<lparr>binary = ''/opt/missing/trainctl'', output_format = ''json''\<rparr>
        [''resources'', ''summary'']) = NotFound
   \<and> run rejects_all no_executable
        \<lparr>binary = ''/opt/missing/trainctl'', output_format = ''json''\<rparr>
        [''resources'', ''summary''] False
       = Inl (TrainctlError
           (''trainctl binary not found: /opt/missing/trainctl'' @ [newline] @
            ''Install with: cargo install --path .''))
   \<and> no_executable
     (command_line \<lparr>binary = ''/opt/missing/trainctl'', output_format = ''json''\<rparr>
        [''--version'']) = NotFound
   \<and> version rejects_all no_executable
        \<lparr>binary = ''/opt/missing/trainctl'', output_format = ''json''\<rparr>
       = Inl (TrainctlError
           (''trainctl binary not found: /opt/missing/trainctl'' @ [newline] @
            ''Install with: cargo install --path .''))"
  using run_not_found_raises [of no_executable
      "\<lparr>binary = ''/opt/missing/trainctl'', output_format = ''json''\<rparr>"
      "[''resources'', ''summary'']" rejects_all]
  by (simp add: no_executable_def)

section \<open>The constructor\<close>

text \<open>
  Claim C7. An explicit path becomes the binary as it is, whatever the file system says
  of it. Without one, the binary is \<^verbatim>\<open>trainctl\<close> when \<^verbatim>\<open>shutil.which\<close> finds
  it; else the release build's path when that exists; else the debug build's path when
  that exists; else the bare name \<^verbatim>\<open>trainctl\<close>. The binary stored in the facade is
  the first word of every command line.
\<close>

theorem binary_resolution_order:
  "binary (Trainctl_init fs (Some explicit) fmt) = explicit
   \<and> (which fs ''trainctl'' = Some w \<and> w \<noteq> [] \<longrightarrow>
        binary (Trainctl_init fs None fmt) = ''trainctl'')
   \<and> (which fs ''trainctl'' = None \<and> path_exists fs (release_bin fs) \<longrightarrow>
        binary (Trainctl_init fs None fmt) = release_bin fs)
   \<and> (which fs ''trainctl'' = None \<and> \<not> path_exists fs (release_bin fs)
        \<and> path_exists fs (debug_bin fs) \<longrightarrow>
        binary (Trainctl_init fs None fmt) = debug_bin fs)
   \<and> (which fs ''trainctl'' = None \<and> \<not> path_exists fs (release_bin fs)
        \<and> \<not> path_exists fs (debug_bin fs) \<longrightarrow>
        binary (Trainctl_init fs None fmt) = ''trainctl'')
   \<and> hd (command_line (Trainctl_init fs explicit_opt fmt) args)
        = binary (Trainctl_init fs explicit_opt fmt)"
  by (simp add: Trainctl_init_def command_line_def)

text \<open>
  Instances of C7, one for each alternative: an explicit path that does not exist, the
  name found on the search path, the release build, the debug build alone, nothing at all.
\<close>

theorem binary_resolution_order_witness:
  "binary (Trainctl_init
      \<lparr>which = (\<lambda>name. Some ''/usr/bin/trainctl''), path_exists = (\<lambda>p. False),
       release_bin = ''/repo/target/release/trainctl'',
       debug_bin = ''/repo/target/debug/trainctl''\<rparr>
      (Some ''/opt/missing/trainctl'') ''json'') = ''/opt/missing/trainctl''
   \<and> binary (Trainctl_init
      \<lparr>which = (\<lambda>name. Some ''/usr/bin/trainctl''), path_exists = (\<lambda>p. True),
       release_bin = ''/repo/target/release/trainctl'',
       debug_bin = ''/repo/target/debug/trainctl''\<rparr>
      None ''json'') = ''trainctl''
   \<and> binary (Trainctl_init
      \<lparr>which = (\<lambda>name. None), path_exists = (\<lambda>p. True),
       release_bin = ''/repo/target/release/trainctl'',
       debug_bin = ''/repo/target/debug/trainctl''\<rparr>
      None ''json'') = ''/repo/target/release/trainctl''
   \<and> binary (Trainctl_init
      \<lparr>which = (\<lambda>name. None), path_exists = (\<lambda>p. p = ''/repo/target/debug/trainctl''),
       release_bin = ''/repo/target/release/trainctl'',
       debug_bin = ''/repo/target/debug/trainctl''\<rparr>
      None ''json'') = ''/repo/target/debug/trainctl''
   \<and> binary (Trainctl_init
      \<lparr>which = (\<lambda>name. None), path_exists = (\<lambda>p. False),
       release_bin = ''/repo/target/release/trainctl'',
       debug_bin = ''/repo/target/debug/trainctl''\<rparr>
      None ''json'') = ''trainctl''"
  using
    binary_resolution_order [of
      "\<lparr>which = (\<lambda>name. Some ''/usr/bin/trainctl''), path_exists = (\<lambda>p. False),
        release_bin = ''/repo/target/release/trainctl'',
        debug_bin = ''/repo/target/debug/trainctl''\<rparr>"
      "''/opt/missing/trainctl''" "''json''" "''/usr/bin/trainctl''" None "[]"]
    binary_resolution_order [of
      "\<lparr>which = (\<lambda>name. Some ''/usr/bin/trainctl''), path_exists = (\<lambda>p. True),
        release_bin = ''/repo/target/release/trainctl'',
        debug_bin = ''/repo/target/debug/trainctl''\<rparr>"
      "''x''" "''json''" "''/usr/bin/trainctl''" None "[]"]
    binary_resolution_order [of
      "\<lparr>which = (\<lambda>name. None), path_exists = (\<lambda>p. True),
        release_bin = ''/repo/target/release/trainctl'',
        debug_bin = ''/repo/target/debug/trainctl''\<rparr>"
      "''x''" "''json''" "''w''" None "[]"]
    binary_resolution_order [of
      "\<lparr>which = (\<lambda>name. None), path_exists = (\<lambda>p. p = ''/repo/target/debug/trainctl''),
        release_bin = ''/repo/target/release/trainctl'',
        debug_bin = ''/repo/target/debug/trainctl''\<rparr>"
      "''x''" "''json''" "''w''" None "[]"]
    binary_resolution_order [of
      "\<lparr>which = (\<lambda>name. None), path_exists = (\<lambda>p. False),
        release_bin = ''/repo/target/release/trainctl'',
        debug_bin = ''/repo/target/debug/trainctl''\<rparr>"
      "''x''" "''json''" "''w''" None "[]"]
  by simp

section \<open>Properties of the command builders\<close>

text \<open>
  Claim C5. \<^verbatim>\<open>resources.list(platform="aws", limit=5)\<close> builds the arguments
  \<^verbatim>\<open>resources list --platform aws --limit 5\<close> in this order and hands them to
  \<^verbatim>\<open>_run\<close>, which in the \<^verbatim>\<open>json\<close> format puts the executable in front and
  the pair \<^verbatim>\<open>--output json\<close> at the end. That command line, and no other, is the one
  the call spawns: what the call returns or raises is fixed by what the system does with
  it, be it that no executable is found, that the child fails, or that it exits with code 0.
\<close>

theorem list_aws_limit_command:
  "resources_list_args (Some ''aws'') False (Some 5)
     = [''resources'', ''list'', ''--platform'', ''aws'', ''--limit'', ''5'']
   \<and> resources_list (run json_loads spawn) self (Some ''aws'') False (Some 5)
     = run json_loads spawn self
         [''resources'', ''list'', ''--platform'', ''aws'', ''--limit'', ''5''] True
   \<and> command_line (self\<lparr>output_format := ''json''\<rparr>)
         (resources_list_args (Some ''aws'') False (Some 5))
     = [binary self, ''resources'', ''list'', ''--platform'', ''aws'', ''--limit'', ''5'',
        ''--output'', ''json'']
   \<and> command_line (self\<lparr>output_format := ''json''\<rparr>) args
     = (binary self # args) @ [''--output'', ''json'']
   \<and> (spawn [binary self, ''resources'', ''list'', ''--platform'', ''aws'', ''--limit'', ''5'',
          ''--output'', ''json''] = NotFound \<longrightarrow>
        resources_list (run json_loads spawn) (self\<lparr>output_format := ''json''\<rparr>)
          (Some ''aws'') False (Some 5)
        = Inl (TrainctlError
            (''trainctl binary not found: '' @ binary self @ [newline] @
             ''Install with: cargo install --path .'')))
   \<and> (spawn [binary self, ''resources'', ''list'', ''--platform'', ''aws'', ''--limit'', ''5'',
          ''--output'', ''json''] = Exited returncode out err \<and> returncode \<noteq> 0 \<longrightarrow>
        resources_list (run json_loads spawn) (self\<lparr>output_format := ''json''\<rparr>)
          (Some ''aws'') False (Some 5)
        = Inl (TrainctlError
            (''trainctl command failed: '' @ err @ [newline] @
             ''Command: '' @ join '' ''
               [binary self, ''resources'', ''list'', ''--platform'', ''aws'', ''--limit'',
                ''5'', ''--output'', ''json''])))
   \<and> (spawn [binary self, ''resources'', ''list'', ''--platform'', ''aws'', ''--limit'', ''5'',
          ''--output'', ''json''] = Exited 0 out err \<longrightarrow>
        resources_list (run json_loads spawn) (self\<lparr>output_format := ''json''\<rparr>)
          (Some ''aws'') False (Some 5)
        = (if strip out = [] then Inr (Dict [])
           else case json_loads out of
                  Decoded v \<Rightarrow> Inr (Loaded v)
                | JSONDecodeError \<Rightarrow> Inr (Dict [(''output'', PyStr out)])
                | Raises e \<Rightarrow> Inl (Uncaught e)))"
proof -
  let ?full = "[binary self, ''resources'', ''list'', ''--platform'', ''aws'', ''--limit'',
    ''5'', ''--output'', ''json'']"
  let ?self = "self\<lparr>output_format := ''json''\<rparr>"
  let ?call = "resources_list (run json_loads spawn) ?self (Some ''aws'') False (Some 5)"
  have args: "resources_list_args (Some ''aws'') False (Some 5)
     = [''resources'', ''list'', ''--platform'', ''aws'', ''--limit'', ''5'']"
    by (simp add: resources_list_args_def str_int_def str_nat.simps digit_char_def digits_def)
  have cmd: "command_line ?self
      [''resources'', ''list'', ''--platform'', ''aws'', ''--limit'', ''5''] = ?full"
    by (simp add: command_line_def)
  have call: "?call = run json_loads spawn ?self
      [''resources'', ''list'', ''--platform'', ''aws'', ''--limit'', ''5''] True"
    by (simp add: resources_list_def args)
  have not_found: "?call = Inl (TrainctlError
            (''trainctl binary not found: '' @ binary self @ [newline] @
             ''Install with: cargo install --path .''))"
    if "spawn ?full = NotFound"
    using that by (simp add: call run_def cmd subprocess_run_def)
  have failed: "?call = Inl (TrainctlError
            (''trainctl command failed: '' @ err @ [newline] @
             ''Command: '' @ join '' '' ?full))"
    if "spawn ?full = Exited returncode out err \<and> returncode \<noteq> 0"
    using that by (simp add: call run_def cmd subprocess_run_def)
  have exited: "?call = (if strip out = [] then Inr (Dict [])
           else case json_loads out of
                  Decoded v \<Rightarrow> Inr (Loaded v)
                | JSONDecodeError \<Rightarrow> Inr (Dict [(''output'', PyStr out)])
                | Raises e \<Rightarrow> Inl (Uncaught e))"
    if "spawn ?full = Exited 0 out err"
    using that by (simp add: call run_def cmd subprocess_run_def)
  have first: "resources_list (run json_loads spawn) self (Some ''aws'') False (Some 5)
     = run json_loads spawn self
         [''resources'', ''list'', ''--platform'', ''aws'', ''--limit'', ''5''] True"
    by (simp add: resources_list_def args)
  have third: "command_line ?self (resources_list_args (Some ''aws'') False (Some 5)) = ?full"
    by (simp add: args cmd)
  have fourth: "command_line ?self args = (binary self # args) @ [''--output'', ''json'']"
    by (simp add: command_line_def)
  from args first third fourth not_found failed exited show ?thesis
    by blast
qed

text \<open>
  Instances of C5 on a system that answers this one command line only: the child prints
  \<^verbatim>\<open>[]\<close> and the decoder's value comes back; the child fails with code 1 and the
  message names the command line; and a system with no executable at all.
\<close>

theorem list_aws_limit_command_witness:
  "resources_list (run accepts_all
       (only_command
          [''trainctl'', ''resources'', ''list'', ''--platform'', ''aws'', ''--limit'', ''5'',
           ''--output'', ''json'']
          (Exited 0 ''[]'' [])))
     \<lparr>binary = ''trainctl'', output_format = ''json''\<rparr> (Some ''aws'') False (Some 5)
     = Inr (Loaded ''[]'')
   \<and> resources_list (run rejects_all
       (only_command
          [''trainctl'', ''resources'', ''list'', ''--platform'', ''aws'', ''--limit'', ''5'',
           ''--output'', ''json'']
          (Exited 1 [] ''quota exceeded'')))
     \<lparr>binary = ''trainctl'', output_format = ''json''\<rparr> (Some ''aws'') False (Some 5)
     = Inl (TrainctlError
         (''trainctl command failed: quota exceeded'' @ [newline] @
          ''Command: trainctl resources list --platform aws --limit 5 --output json''))
   \<and> resources_list (run rejects_all no_executable)
     \<lparr>binary = ''trainctl'', output_format = ''json''\<rparr> (Some ''aws'') False (Some 5)
     = Inl (TrainctlError
         (''trainctl binary not found: trainctl'' @ [newline] @
          ''Install with: cargo install --path .''))"
proof -
  let ?full = "[''trainctl'', ''resources'', ''list'', ''--platform'', ''aws'', ''--limit'',
    ''5'', ''--output'', ''json'']"
  let ?self = "\<lparr>binary = ''trainctl'', output_format = ''json''\<rparr>"
  have printed: "resources_list (run accepts_all (only_command ?full (Exited 0 ''[]'' [])))
      ?self (Some ''aws'') False (Some 5) = Inr (Loaded ''[]'')"
    using list_aws_limit_command [where json_loads = accepts_all
        and spawn = "only_command ?full (Exited 0 ''[]'' [])" and self = ?self
        and out = "''[]''" and err = "[]",
        THEN conjunct2, THEN conjunct2, THEN conjunct2, THEN conjunct2, THEN conjunct2,
        THEN conjunct2]
    by (simp add: only_command_def accepts_all_def strip_def isspace_def)
  have failed: "resources_list
      (run rejects_all (only_command ?full (Exited 1 [] ''quota exceeded'')))
      ?self (Some ''aws'') False (Some 5)
      = Inl (TrainctlError
         (''trainctl command failed: quota exceeded'' @ [newline] @
          ''Command: trainctl resources list --platform aws --limit 5 --output json''))"
    using list_aws_limit_command [where json_loads = rejects_all
        and spawn = "only_command ?full (Exited 1 [] ''quota exceeded'')" and self = ?self
        and out = "[]" and err = "''quota exceeded''" and returncode = 1,
        THEN conjunct2, THEN conjunct2, THEN conjunct2, THEN conjunct2, THEN conjunct2,
        THEN conjunct1]
    by (simp add: only_command_def)
  have missing: "resources_list (run rejects_all no_executable)
      ?self (Some ''aws'') False (Some 5)
      = Inl (TrainctlError
         (''trainctl binary not found: trainctl'' @ [newline] @
          ''Install with: cargo install --path .''))"
    using list_aws_limit_command [where json_loads = rejects_all
        and spawn = no_executable and self = ?self,
        THEN conjunct2, THEN conjunct2, THEN conjunct2, THEN conjunct2, THEN conjunct1]
    by (simp add: no_executable_def)
  from printed failed missing show ?thesis
    by (intro conjI)
qed

text \<open>
  Claim C8. An optional argument that is given but false in Python's sense is treated as
  one that is not given: the limit 0, a spot price of plus or minus zero, an empty list of
  script arguments, and likewise an empty string for any optional string. So
  \<^verbatim>\<open>resources.list(limit=0)\<close> has no \<^verbatim>\<open>--limit\<close>,
  \<^verbatim>\<open>create_instance(t, spot_max_price=0.0)\<close> is just
  \<^verbatim>\<open>aws create --instance-type t\<close>, and \<^verbatim>\<open>train(i, s, args=[])\<close> is just
  \<^verbatim>\<open>aws train i s\<close> with no \<^verbatim>\<open>--\<close> added.
\<close>

theorem falsy_optionals_as_unset:
  "resources_list_args platform detailed (Some 0) = resources_list_args platform detailed None
   \<and> resources_list_args (Some []) detailed limit = resources_list_args None detailed limit
   \<and> create_instance_args float_str instance_type spot (Some (FNum sign 0 exponent)) ami_id
        project_name
       = create_instance_args float_str instance_type spot None ami_id project_name
   \<and> create_instance_args float_str instance_type spot spot_max_price (Some []) project_name
       = create_instance_args float_str instance_type spot spot_max_price None project_name
   \<and> create_instance_args float_str instance_type spot spot_max_price ami_id (Some [])
       = create_instance_args float_str instance_type spot spot_max_price ami_id None
   \<and> train_args instance_id script data_s3 sync_code project_name (Some [])
       = train_args instance_id script data_s3 sync_code project_name None
   \<and> train_args instance_id script (Some []) sync_code project_name args
       = train_args instance_id script None sync_code project_name args
   \<and> train_args instance_id script data_s3 sync_code (Some []) args
       = train_args instance_id script data_s3 sync_code None args
   \<and> resources_list_args None False (Some 0) = [''resources'', ''list'']
   \<and> ''--limit'' \<notin> set (resources_list_args None False (Some 0))
   \<and> create_instance_args float_str instance_type False (Some (FNum sign 0 exponent)) None None
       = [''aws'', ''create'', ''--instance-type'', instance_type]
   \<and> train_args instance_id script None False None (Some [])
       = [''aws'', ''train'', instance_id, script]
   \<and> resources_list invoke self platform detailed (Some 0)
       = resources_list invoke self platform detailed None
   \<and> create_instance invoke self float_str instance_type spot (Some (FNum sign 0 exponent))
        ami_id project_name
       = create_instance invoke self float_str instance_type spot None ami_id project_name
   \<and> train invoke self instance_id script data_s3 sync_code project_name (Some [])
       = train invoke self instance_id script data_s3 sync_code project_name None"
  by (simp add: resources_list_args_def create_instance_args_def train_args_def
      resources_list_def create_instance_def train_def)

text \<open>
  What a builder adds for an argument that is left out: nothing. A token equal to the
  argument's flag can then only be one of the caller's own values, which the builders
  copy into the list as they are. The rendering of an \<^verbatim>\<open>int\<close> is never a flag.
\<close>

lemma create_instance_args_unset:
  "''--spot'' \<notin> {instance_type} \<union> float_str ` set_option spot_max_price
        \<union> set_option ami_id \<union> set_option project_name \<Longrightarrow>
     ''--spot'' \<notin> set (create_instance_args float_str instance_type False spot_max_price
        ami_id project_name)"
  "''--spot-max-price'' \<notin> {instance_type} \<union> set_option ami_id \<union> set_option project_name \<Longrightarrow>
     ''--spot-max-price'' \<notin> set (create_instance_args float_str instance_type spot None
        ami_id project_name)"
  "''--ami-id'' \<notin> {instance_type} \<union> float_str ` set_option spot_max_price
        \<union> set_option project_name \<Longrightarrow>
     ''--ami-id'' \<notin> set (create_instance_args float_str instance_type spot spot_max_price
        None project_name)"
  "''--project-name'' \<notin> {instance_type} \<union> float_str ` set_option spot_max_price
        \<union> set_option ami_id \<Longrightarrow>
     ''--project-name'' \<notin> set (create_instance_args float_str instance_type spot spot_max_price
        ami_id None)"
  by (auto simp: create_instance_args_def split: option.splits)

lemma train_args_unset:
  "''--data-s3'' \<notin> {instance_id, script} \<union> set_option project_name
        \<union> (case args of Some xs \<Rightarrow> set xs | None \<Rightarrow> {}) \<Longrightarrow>
     ''--data-s3'' \<notin> set (train_args instance_id script None sync_code project_name args)"
  "''--sync-code'' \<notin> {instance_id, script} \<union> set_option data_s3 \<union> set_option project_name
        \<union> (case args of Some xs \<Rightarrow> set xs | None \<Rightarrow> {}) \<Longrightarrow>
     ''--sync-code'' \<notin> set (train_args instance_id script data_s3 False project_name args)"
  "''--project-name'' \<notin> {instance_id, script} \<union> set_option data_s3
        \<union> (case args of Some xs \<Rightarrow> set xs | None \<Rightarrow> {}) \<Longrightarrow>
     ''--project-name'' \<notin> set (train_args instance_id script data_s3 sync_code None args)"
  "''--'' \<notin> {instance_id, script} \<union> set_option data_s3 \<union> set_option project_name \<Longrightarrow>
     ''--'' \<notin> set (train_args instance_id script data_s3 sync_code project_name None)"
  by (auto simp: train_args_def split: option.splits)

lemma flag_args_unset:
  "instance_id \<noteq> ''--force'' \<Longrightarrow> ''--force'' \<notin> set (stop_args instance_id False)"
  "instance_id \<noteq> ''--force'' \<Longrightarrow> ''--force'' \<notin> set (terminate_args instance_id False)"
  "instance_id \<noteq> ''--follow'' \<Longrightarrow> ''--follow'' \<notin> set (monitor_args instance_id False)"
  "instance_id \<noteq> ''--watch'' \<Longrightarrow> ''--watch'' \<notin> set (processes_args instance_id False)"
  "''--force'' \<notin> set (stop_all_args False)"
  by (auto simp: stop_args_def terminate_args_def monitor_args_def processes_args_def
      stop_all_args_def)

lemma resources_list_args_unset:
  "''--platform'' \<notin> set (resources_list_args None detailed limit)"
  "platform \<noteq> Some ''--detailed'' \<Longrightarrow>
     ''--detailed'' \<notin> set (resources_list_args platform False limit)"
  "platform \<noteq> Some ''--limit'' \<Longrightarrow>
     ''--limit'' \<notin> set (resources_list_args platform detailed None)"
  by (auto simp: resources_list_args_def str_int_not_flags str_int_not_flags [symmetric]
      split: option.splits)

text \<open>
  Claim C6, as amended. For each of \<^verbatim>\<open>create_instance\<close>, \<^verbatim>\<open>train\<close>,
  \<^verbatim>\<open>stop\<close>, \<^verbatim>\<open>terminate\<close>, \<^verbatim>\<open>monitor\<close>, \<^verbatim>\<open>processes\<close>,
  \<^verbatim>\<open>list\<close> and \<^verbatim>\<open>stop_all\<close> and each optional argument left at its default
  (\<^verbatim>\<open>None\<close> or \<^verbatim>\<open>False\<close>), the argument list does not contain that argument's
  flag, provided the flag is not itself one of the values the caller supplies for the
  list: a positional argument, the value of another option as rendered, or a script
  argument passed after \<^verbatim>\<open>--\<close>.
\<close>

theorem unset_optional_adds_no_flag:
  "(''--spot'' \<notin> {instance_type} \<union> float_str ` set_option spot_max_price
        \<union> set_option ami_id \<union> set_option project_name \<longrightarrow>
      ''--spot'' \<notin> set (create_instance_args float_str instance_type False spot_max_price
        ami_id project_name))
   \<and> (''--spot-max-price'' \<notin> {instance_type} \<union> set_option ami_id
        \<union> set_option project_name \<longrightarrow>
      ''--spot-max-price'' \<notin> set (create_instance_args float_str instance_type spot None
        ami_id project_name))
   \<and> (''--ami-id'' \<notin> {instance_type} \<union> float_str ` set_option spot_max_price
        \<union> set_option project_name \<longrightarrow>
      ''--ami-id'' \<notin> set (create_instance_args float_str instance_type spot spot_max_price
        None project_name))
   \<and> (''--project-name'' \<notin> {instance_type} \<union> float_str ` set_option spot_max_price
        \<union> set_option ami_id \<longrightarrow>
      ''--project-name'' \<notin> set (create_instance_args float_str instance_type spot
        spot_max_price ami_id None))
   \<and> (''--data-s3'' \<notin> {instance_id, script} \<union> set_option project_name
        \<union> (case args of Some xs \<Rightarrow> set xs | None \<Rightarrow> {}) \<longrightarrow>
      ''--data-s3'' \<notin> set (train_args instance_id script None sync_code project_name args))
   \<and> (''--sync-code'' \<notin> {instance_id, script} \<union> set_option data_s3
        \<union> set_option project_name
        \<union> (case args of Some xs \<Rightarrow> set xs | None \<Rightarrow> {}) \<longrightarrow>
      ''--sync-code'' \<notin> set (train_args instance_id script data_s3 False project_name args))
   \<and> (''--project-name'' \<notin> {instance_id, script} \<union> set_option data_s3
        \<union> (case args of Some xs \<Rightarrow> set xs | None \<Rightarrow> {}) \<longrightarrow>
      ''--project-name'' \<notin> set (train_args instance_id script data_s3 sync_code None args))
   \<and> (''--'' \<notin> {instance_id, script} \<union> set_option data_s3
        \<union> set_option project_name \<longrightarrow>
      ''--'' \<notin> set (train_args instance_id script data_s3 sync_code project_name None))
   \<and> (instance_id \<noteq> ''--force'' \<longrightarrow> ''--force'' \<notin> set (stop_args instance_id False))
   \<and> (instance_id \<noteq> ''--force'' \<longrightarrow> ''--force'' \<notin> set (terminate_args instance_id False))
   \<and> (instance_id \<noteq> ''--follow'' \<longrightarrow> ''--follow'' \<notin> set (monitor_args instance_id False))
   \<and> (instance_id \<noteq> ''--watch'' \<longrightarrow> ''--watch'' \<notin> set (processes_args instance_id False))
   \<and> ''--platform'' \<notin> set (resources_list_args None detailed limit)
   \<and> (platform \<noteq> Some ''--detailed'' \<longrightarrow>
      ''--detailed'' \<notin> set (resources_list_args platform False limit))
   \<and> (platform \<noteq> Some ''--limit'' \<longrightarrow>
      ''--limit'' \<notin> set (resources_list_args platform detailed None))
   \<and> ''--force'' \<notin> set (stop_all_args False)"
  by (intro conjI impI create_instance_args_unset train_args_unset flag_args_unset
      resources_list_args_unset)

text \<open>
  Instances of C6 with the other arguments set: an instance type and a price, an AMI and a
  project name for \<^verbatim>\<open>create_instance\<close>, a data path and script arguments for
  \<^verbatim>\<open>train\<close>, a platform and a limit for \<^verbatim>\<open>list\<close>.
\<close>

theorem unset_optional_adds_no_flag_witness:
  "''--spot'' \<notin> set (create_instance_args (\<lambda>x. ''0.5'') ''g4dn.xlarge'' False
      (Some (FNum False 1 (- 1))) (Some ''ami-1'') (Some ''demo''))
   \<and> ''--spot-max-price'' \<notin> set (create_instance_args (\<lambda>x. ''0.5'') ''g4dn.xlarge'' True
      None (Some ''ami-1'') (Some ''demo''))
   \<and> ''--ami-id'' \<notin> set (create_instance_args (\<lambda>x. ''0.5'') ''g4dn.xlarge'' True
      (Some (FNum False 1 (- 1))) None (Some ''demo''))
   \<and> ''--project-name'' \<notin> set (create_instance_args (\<lambda>x. ''0.5'') ''g4dn.xlarge'' True
      (Some (FNum False 1 (- 1))) (Some ''ami-1'') None)
   \<and> ''--data-s3'' \<notin> set (train_args ''i-1'' ''train.py'' None True (Some ''demo'')
      (Some [''--epochs'', ''10'']))
   \<and> ''--sync-code'' \<notin> set (train_args ''i-1'' ''train.py'' (Some ''s3://bucket/data'') False
      (Some ''demo'') (Some [''--epochs'', ''10'']))
   \<and> ''--project-name'' \<notin> set (train_args ''i-1'' ''train.py'' (Some ''s3://bucket/data'') True
      None (Some [''--epochs'', ''10'']))
   \<and> ''--'' \<notin> set (train_args ''i-1'' ''train.py'' (Some ''s3://bucket/data'') True
      (Some ''demo'') None)
   \<and> ''--force'' \<notin> set (stop_args ''i-1'' False)
   \<and> ''--force'' \<notin> set (terminate_args ''i-1'' False)
   \<and> ''--follow'' \<notin> set (monitor_args ''i-1'' False)
   \<and> ''--watch'' \<notin> set (processes_args ''i-1'' False)
   \<and> ''--platform'' \<notin> set (resources_list_args None True (Some 5))
   \<and> ''--detailed'' \<notin> set (resources_list_args (Some ''aws'') False (Some 5))
   \<and> ''--limit'' \<notin> set (resources_list_args (Some ''aws'') True None)
   \<and> ''--force'' \<notin> set (stop_all_args False)"
  using unset_optional_adds_no_flag [where float_str = "\<lambda>x. ''0.5''"
      and instance_type = "''g4dn.xlarge''" and spot = True
      and spot_max_price = "Some (FNum False 1 (- 1))" and ami_id = "Some ''ami-1''"
      and project_name = "Some ''demo''" and instance_id = "''i-1''"
      and script = "''train.py''" and ?data_s3.0 = "Some ''s3://bucket/data''"
      and sync_code = True and args = "Some [''--epochs'', ''10'']"
      and platform = "Some ''aws''" and detailed = True and limit = "Some 5"]
  by simp

text \<open>
  Claim C6 as first stated has no proviso. \<^verbatim>\<open>stop("--force")\<close> leaves
  \<^verbatim>\<open>force\<close> at its default, and the list it builds contains \<^verbatim>\<open>--force\<close>: the
  instance id is copied as it is.
\<close>

theorem stop_flag_value_counterexample:
  "stop_args ''--force'' False = [''aws'', ''stop'', ''--force'']
   \<and> ''--force'' \<in> set (stop_args ''--force'' False)"
  by (simp add: stop_args_def)

end
